theory Spec2Isabelle
  imports Main
begin

section \<open>The OMDb integration layer (movies/omdb\_integration.py)\<close>

text \<open>
  The module holds three functions: the generator \<open>get_or_create_genres\<close>, and the two
  operations \<open>fill_movie_details\<close> and \<open>search_and_save\<close>. They read and write the
  tables of the ORM (Movie, Genre, SearchTerm and the Movie-Genre association), call the
  OMDb client and write log records. All of that is state here: a \<open>world\<close> record is
  passed in and returned. An exception is a value of type \<open>error\<close>; since no transaction
  wraps a call, the world reached when the exception was raised is returned with it.
\<close>

subsection \<open>Strings: \<open>str.lower\<close> and \<open>re.sub(r"\\s+", " ", ...)\<close>\<close>

text \<open>
  A Python string is a sequence of code points. A \<open>char\<close> stands for the code point of
  the same number, so the strings of the model are the Python strings over the code
  points 0 to 255. On these, \<open>\\s\<close> matches the code points 9 to 13, 28 to 32, 133 and
  160, and \<open>str.lower\<close> works code point by code point: it adds 32 to the upper-case
  letters A to Z (65 to 90) and to the upper-case letters of Latin-1 (192 to 222, without
  the multiplication sign 215), and leaves every other code point alone. Beyond 255
  \<open>str.lower\<close> is no longer a map on single code points (the capital sigma depends on
  its neighbours, and the capital I with a dot gives two code points): such strings are
  outside the model.
\<close>

definition isspace :: "char \<Rightarrow> bool" where
  "isspace c = (of_char c \<in> {9, 10, 11, 12, 13, 28, 29, 30, 31, 32, 133, 160 :: nat})"

definition isupper :: "char \<Rightarrow> bool" where
  "isupper c =
     (let n = of_char c :: nat
      in (65 \<le> n \<and> n \<le> 90) \<or> (192 \<le> n \<and> n \<le> 214) \<or> (216 \<le> n \<and> n \<le> 222))"

definition lower_char :: "char \<Rightarrow> char" where
  "lower_char c = (if isupper c then char_of (of_char c + 32 :: nat) else c)"

definition lower :: "string \<Rightarrow> string" where
  "lower s = map lower_char s"

text \<open>
  \<open>re.sub(r"\\s+", " ", s)\<close>: every maximal run of white space is replaced by one space;
  the other characters are copied.
\<close>

function re_sub_spaces :: "string \<Rightarrow> string" where
  "re_sub_spaces [] = []"
| "re_sub_spaces (c # cs) =
     (if isspace c then CHR '' '' # re_sub_spaces (dropWhile isspace cs)
      else c # re_sub_spaces cs)"
  by pat_completeness auto
termination
  by (relation "measure length") (auto simp: length_dropWhile_le less_Suc_eq_le)

text \<open>Line 52: \<open>normalized_search_term = re.sub(r"\\s+", " ", search.lower())\<close>.\<close>

definition normalized_search_term :: "string \<Rightarrow> string" where
  "normalized_search_term search = re_sub_spaces (lower search)"

subsection \<open>The data model\<close>

text \<open>
  A time stamp is a number of microseconds, the resolution of \<open>datetime\<close>;
  \<open>timedelta(days=1)\<close> is 86400 seconds.
\<close>

type_synonym timestamp = int

definition timedelta_days_1 :: int where
  "timedelta_days_1 = 86400 * 1000000"

datatype error = ClientError | DatabaseError

text \<open>
  Modelled from the spec: the model classes of movies/models.py, which the module
  imports. A Movie is identified by its unique external ID and has a title, a year, a
  plot, a run time and the full-record flag; plot and run time are pending (\<open>None\<close>) on
  a partial record. A Genre is identified by its name, a SearchTerm by its normalized
  string, and it has the time stamp of its last search.
\<close>

record movie =
  imdb_id :: string
  title :: string
  year :: int
  plot :: "string option"
  runtime_minutes :: "int option"
  is_full_record :: bool

type_synonym genre = string

record search_term =
  st_term :: string
  last_search :: timestamp

text \<open>
  What the OMDb client returns: the details of one movie, and one entry of a search
  result. The client is a parameter of the two operations. \<open>get_by_imdb_id\<close> returns the
  details or fails. \<open>search\<close> is iterated by a \<open>for\<close> loop: it yields a list of
  entries and then either ends or fails (a failure of the call itself is no entry and
  the failure).
\<close>

record movie_details =
  md_title :: string
  md_year :: int
  md_plot :: string
  md_runtime_minutes :: int
  md_genres :: "string list"

record omdb_movie =
  om_imdb_id :: string
  om_title :: string
  om_year :: int

record omdb_client =
  get_by_imdb_id :: "string \<Rightarrow> error + movie_details"
  search :: "string \<Rightarrow> omdb_movie list \<times> error option"

datatype api_call = GetByImdbId string | Search string

text \<open>A log record: the level, the format string and its arguments.\<close>

datatype level = WARNING | INFO

datatype log_record = Log level string "string list"

definition msg_already_full :: string where
  "msg_already_full = '''%s' is already a full record.''"

definition msg_searched_recently :: string where
  "msg_searched_recently =
     ''Search for '%s' was performed in the past 24 hours so not searching again.''"

definition msg_saving_movie :: string where
  "msg_saving_movie = ''Saving movie: '%s' / '%s'' @ [CHR 0x27]"

definition msg_movie_created :: string where
  "msg_movie_created = ''Movie created: '%s'' @ [CHR 0x27]"

text \<open>
  The world: the four tables, the log and the calls made to the OMDb client. The Movie
  table is keyed by the external ID, the SearchTerm table by the normalized string (both
  unique); the primary keys the ORM adds are not modelled. \<open>movie_genres\<close> gives the
  genres associated with the movie of an external ID.
\<close>

record world =
  movies :: "string \<rightharpoonup> movie"
  genres :: "genre set"
  movie_genres :: "string \<Rightarrow> genre set"
  search_terms :: "string \<rightharpoonup> timestamp"
  logger :: "log_record list"
  api_calls :: "api_call list"

definition logger_warning :: "string \<Rightarrow> string list \<Rightarrow> world \<Rightarrow> world" where
  "logger_warning fmt args w = w\<lparr>logger := logger w @ [Log WARNING fmt args]\<rparr>"

definition logger_info :: "string \<Rightarrow> string list \<Rightarrow> world \<Rightarrow> world" where
  "logger_info fmt args w = w\<lparr>logger := logger w @ [Log INFO fmt args]\<rparr>"

subsection \<open>The operations of the store\<close>

text \<open>
  Every operation of the store can raise. Which ones do is a parameter of the model,
  \<open>fails\<close>, a predicate on the operation and its arguments; an operation that fails
  changes nothing.
\<close>

datatype store_op =
    GenreGetOrCreate string
  | SearchTermGetOrCreate string
  | SearchTermSave string
  | MovieGetOrCreate string string int
  | MovieSave movie
  | GenresClear string
  | GenresAdd string genre

text \<open>\<open>Genre.objects.get_or_create(name=genre_name)\<close>: the genre and whether it is new.\<close>

definition Genre_get_or_create ::
  "(store_op \<Rightarrow> bool) \<Rightarrow> string \<Rightarrow> world \<Rightarrow> (error + genre \<times> bool) \<times> world" where
  "Genre_get_or_create fails name w =
     (if fails (GenreGetOrCreate name) then (Inl DatabaseError, w)
      else (Inr (name, name \<notin> genres w), w\<lparr>genres := insert name (genres w)\<rparr>))"

text \<open>\<open>movie.genres.clear()\<close> and \<open>movie.genres.add(genre)\<close>.\<close>

definition genres_clear :: "(store_op \<Rightarrow> bool) \<Rightarrow> movie \<Rightarrow> world \<Rightarrow> error option \<times> world" where
  "genres_clear fails movie w =
     (if fails (GenresClear (imdb_id movie)) then (Some DatabaseError, w)
      else (None, w\<lparr>movie_genres := (movie_genres w)(imdb_id movie := {})\<rparr>))"

definition genres_add ::
  "(store_op \<Rightarrow> bool) \<Rightarrow> movie \<Rightarrow> genre \<Rightarrow> world \<Rightarrow> error option \<times> world" where
  "genres_add fails movie g w =
     (if fails (GenresAdd (imdb_id movie) g) then (Some DatabaseError, w)
      else (None, w\<lparr>movie_genres :=
              (movie_genres w)(imdb_id movie := insert g (movie_genres w (imdb_id movie)))\<rparr>))"

text \<open>\<open>movie.save()\<close>: the row of the movie takes the fields of the object.\<close>

definition Movie_save :: "(store_op \<Rightarrow> bool) \<Rightarrow> movie \<Rightarrow> world \<Rightarrow> error option \<times> world" where
  "Movie_save fails movie w =
     (if fails (MovieSave movie) then (Some DatabaseError, w)
      else (None, w\<lparr>movies := (movies w)(imdb_id movie \<mapsto> movie)\<rparr>))"

text \<open>
  \<open>Movie.objects.get_or_create(imdb_id=..., defaults={"title": ..., "year": ...})\<close>: the
  stored movie of that ID when there is one, the defaults unused; otherwise a new row.
  Modelled from the spec: the fields of a new row that the call does not give (a
  partial record: full-record flag false, plot and run time pending), which
  movies/models.py declares.
\<close>

definition Movie_get_or_create ::
  "(store_op \<Rightarrow> bool) \<Rightarrow> string \<Rightarrow> string \<Rightarrow> int \<Rightarrow> world \<Rightarrow> (error + movie \<times> bool) \<times> world" where
  "Movie_get_or_create fails i t y w =
     (if fails (MovieGetOrCreate i t y) then (Inl DatabaseError, w)
      else (case movies w i of
              Some m \<Rightarrow> (Inr (m, False), w)
            | None \<Rightarrow>
                (let m = \<lparr>imdb_id = i, title = t, year = y, plot = None,
                          runtime_minutes = None, is_full_record = False\<rparr>
                 in (Inr (m, True), w\<lparr>movies := (movies w)(i \<mapsto> m)\<rparr>))))"

text \<open>
  \<open>SearchTerm.objects.get_or_create(term=...)\<close> and \<open>search_term.save()\<close>.
  Modelled from the spec: the time stamp of a SearchTerm, which movies/models.py
  declares: saving the row (when it is created, and by \<open>save\<close>) sets it to the current
  time.
\<close>

definition SearchTerm_get_or_create ::
  "(store_op \<Rightarrow> bool) \<Rightarrow> timestamp \<Rightarrow> string \<Rightarrow> world \<Rightarrow> (error + search_term \<times> bool) \<times> world" where
  "SearchTerm_get_or_create fails now t w =
     (if fails (SearchTermGetOrCreate t) then (Inl DatabaseError, w)
      else (case search_terms w t of
              Some ts \<Rightarrow> (Inr (\<lparr>st_term = t, last_search = ts\<rparr>, False), w)
            | None \<Rightarrow>
                (Inr (\<lparr>st_term = t, last_search = now\<rparr>, True),
                 w\<lparr>search_terms := (search_terms w)(t \<mapsto> now)\<rparr>)))"

definition SearchTerm_save ::
  "(store_op \<Rightarrow> bool) \<Rightarrow> timestamp \<Rightarrow> search_term \<Rightarrow> world \<Rightarrow> error option \<times> world" where
  "SearchTerm_save fails now st w =
     (if fails (SearchTermSave (st_term st)) then (Some DatabaseError, w)
      else (None, w\<lparr>search_terms := (search_terms w)(st_term st \<mapsto> now)\<rparr>))"

subsection \<open>\<open>get_or_create_genres\<close> and \<open>fill_movie_details\<close>\<close>

text \<open>
  \<open>get_or_create_genres\<close> is a generator, and its only caller drives it with a \<open>for\<close>
  loop: the genre of a name is looked up or created, then the body of the loop runs on
  it, then the next name is taken. The body is the parameter \<open>body\<close>. An exception of
  the generator or of the body ends the loop.
\<close>

fun get_or_create_genres ::
  "(store_op \<Rightarrow> bool) \<Rightarrow> string list \<Rightarrow> (genre \<Rightarrow> world \<Rightarrow> error option \<times> world) \<Rightarrow>
   world \<Rightarrow> error option \<times> world" where
  "get_or_create_genres fails [] body w = (None, w)"
| "get_or_create_genres fails (genre_name # genre_names) body w =
     (case Genre_get_or_create fails genre_name w of
        (Inl e, w1) \<Rightarrow> (Some e, w1)
      | (Inr (genre, created), w1) \<Rightarrow>
          (case body genre w1 of
             (Some e, w2) \<Rightarrow> (Some e, w2)
           | (None, w2) \<Rightarrow> get_or_create_genres fails genre_names body w2))"

text \<open>
  \<open>fill_movie_details(movie)\<close>. The movie is an object in memory, which the function
  changes and then saves: the result is the exception raised (if any), the object and
  the world.
\<close>

definition fill_movie_details ::
  "omdb_client \<Rightarrow> (store_op \<Rightarrow> bool) \<Rightarrow> movie \<Rightarrow> world \<Rightarrow> error option \<times> movie \<times> world" where
  "fill_movie_details omdb fails movie w =
     (if is_full_record movie then
        (None, movie, logger_warning msg_already_full [title movie] w)
      else
        (let w1 = w\<lparr>api_calls := api_calls w @ [GetByImdbId (imdb_id movie)]\<rparr> in
         (case get_by_imdb_id omdb (imdb_id movie) of
            Inl e \<Rightarrow> (Some e, movie, w1)
          | Inr d \<Rightarrow>
              (let movie1 = movie\<lparr>title := md_title d, year := md_year d,
                                  plot := Some (md_plot d),
                                  runtime_minutes := Some (md_runtime_minutes d)\<rparr> in
               (case genres_clear fails movie1 w1 of
                  (Some e, w2) \<Rightarrow> (Some e, movie1, w2)
                | (None, w2) \<Rightarrow>
                    (case get_or_create_genres fails (md_genres d) (genres_add fails movie1) w2 of
                       (Some e, w3) \<Rightarrow> (Some e, movie1, w3)
                     | (None, w3) \<Rightarrow>
                         (let movie2 = movie1\<lparr>is_full_record := True\<rparr> in
                          (case Movie_save fails movie2 w3 of
                             (r, w4) \<Rightarrow> (r, movie2, w4)))))))))"

subsection \<open>\<open>search_and_save\<close>\<close>

text \<open>
  The loop of lines 66 to 77 over the entries the client yields: the entry is logged,
  its movie is looked up or created, and a creation is logged.
\<close>

fun save_results :: "(store_op \<Rightarrow> bool) \<Rightarrow> omdb_movie list \<Rightarrow> world \<Rightarrow> error option \<times> world" where
  "save_results fails [] w = (None, w)"
| "save_results fails (omdb_movie # rest) w =
     (let w1 = logger_info msg_saving_movie [om_title omdb_movie, om_imdb_id omdb_movie] w in
      (case Movie_get_or_create fails (om_imdb_id omdb_movie) (om_title omdb_movie)
              (om_year omdb_movie) w1 of
         (Inl e, w2) \<Rightarrow> (Some e, w2)
       | (Inr (movie, created), w2) \<Rightarrow>
           save_results fails rest
             (if created then logger_info msg_movie_created [title movie] w2 else w2)))"

text \<open>
  \<open>search_and_save(search)\<close>. \<open>now\<close> is the current time: the call is taken to happen
  at one instant, so every reading of the clock in it gives \<open>now\<close>.
\<close>

definition search_and_save ::
  "omdb_client \<Rightarrow> (store_op \<Rightarrow> bool) \<Rightarrow> timestamp \<Rightarrow> string \<Rightarrow> world \<Rightarrow> error option \<times> world" where
  "search_and_save omdb fails now search_str w =
     (case SearchTerm_get_or_create fails now (normalized_search_term search_str) w of
        (Inl e, w1) \<Rightarrow> (Some e, w1)
      | (Inr (st, created), w1) \<Rightarrow>
          (if \<not> created \<and> last_search st > now - timedelta_days_1 then
             (None, logger_warning msg_searched_recently [normalized_search_term search_str] w1)
           else
             (let w2 = w1\<lparr>api_calls := api_calls w1 @ [Search search_str]\<rparr> in
              (case save_results fails (fst (search omdb search_str)) w2 of
                 (Some e, w3) \<Rightarrow> (Some e, w3)
               | (None, w3) \<Rightarrow>
                   (case snd (search omdb search_str) of
                      Some e \<Rightarrow> (Some e, w3)
                    | None \<Rightarrow> SearchTerm_save fails now st w3)))))"

subsection \<open>Search strings that differ only in white space runs or letter case\<close>







subsection \<open>Notions used to state the properties\<close>

text \<open>
  The recency check of line 56, \<open>not created and search_term.last_search > now() -
  timedelta(days=1)\<close>, read on the store before the call: the SearchTerm exists and its
  time stamp is later than one day before \<open>now\<close>.
\<close>

definition searched_recently :: "timestamp \<Rightarrow> string \<Rightarrow> world \<Rightarrow> bool" where
  "searched_recently now k w =
     (case search_terms w k of None \<Rightarrow> False | Some ts \<Rightarrow> ts > now - timedelta_days_1)"

text \<open>The store refuses the \<open>get_or_create\<close> of the movie of a search result.\<close>

abbreviation get_or_create_fails :: "(store_op \<Rightarrow> bool) \<Rightarrow> omdb_movie \<Rightarrow> bool" where
  "get_or_create_fails fails r \<equiv> fails (MovieGetOrCreate (om_imdb_id r) (om_title r) (om_year r))"

text \<open>
  The world in which the loop over the results starts: the SearchTerm has been looked up or
  created, and the client's \<open>search\<close> has been called.
\<close>

abbreviation search_started :: "(store_op \<Rightarrow> bool) \<Rightarrow> timestamp \<Rightarrow> string \<Rightarrow> world \<Rightarrow> world" where
  "search_started fails now s w \<equiv>
     (snd (SearchTerm_get_or_create fails now (normalized_search_term s) w))
       \<lparr>api_calls := api_calls w @ [Search s]\<rparr>"

text \<open>The new row that \<open>get_or_create\<close> makes for a search result: a partial record.\<close>

definition partial_record :: "omdb_movie \<Rightarrow> movie" where
  "partial_record r =
     \<lparr>imdb_id = om_imdb_id r, title = om_title r, year = om_year r, plot = None,
      runtime_minutes = None, is_full_record = False\<rparr>"

subsection \<open>Example inputs\<close>



text \<open>
  A store in which no operation fails, the empty world, a world whose only content is one
  SearchTerm, a client that finds nothing, and a current time.
\<close>

definition no_failure :: "store_op \<Rightarrow> bool" where
  "no_failure op = False"

definition empty_world :: world where
  "empty_world =
     \<lparr>movies = Map.empty, genres = {}, movie_genres = (\<lambda>i. {}), search_terms = Map.empty,
      logger = [], api_calls = []\<rparr>"

definition searched_at :: "string \<Rightarrow> timestamp \<Rightarrow> world" where
  "searched_at k ts = empty_world\<lparr>search_terms := [k \<mapsto> ts]\<rparr>"

definition no_results_client :: omdb_client where
  "no_results_client =
     \<lparr>get_by_imdb_id = (\<lambda>i. Inl ClientError), search = (\<lambda>q. ([], None))\<rparr>"

definition example_now :: timestamp where
  "example_now = 1700000000 * 1000000"

definition hours :: "int \<Rightarrow> int" where
  "hours n = n * 3600 * 1000000"

text \<open>
  A stored full record, a client whose search gives two results, the first with the
  external ID of the stored movie, and the world that holds the stored movie.
\<close>

definition star_wars :: movie where
  "star_wars =
     \<lparr>imdb_id = ''tt0076759'', title = ''Star Wars'', year = 1977,
      plot = Some ''Luke Skywalker joins forces with a Jedi Knight.'',
      runtime_minutes = Some 121, is_full_record = True\<rparr>"

definition result_a :: omdb_movie where
  "result_a =
     \<lparr>om_imdb_id = ''tt0076759'', om_title = ''Star Wars: Episode IV - A New Hope'',
      om_year = 1977\<rparr>"

definition result_b :: omdb_movie where
  "result_b =
     \<lparr>om_imdb_id = ''tt0080684'', om_title = ''Star Wars: Episode V'', om_year = 1980\<rparr>"

definition two_results :: "omdb_movie list" where
  "two_results = [result_a, result_b]"

definition two_results_client :: omdb_client where
  "two_results_client =
     \<lparr>get_by_imdb_id = (\<lambda>i. Inl ClientError), search = (\<lambda>q. (two_results, None))\<rparr>"

definition star_wars_stored :: world where
  "star_wars_stored =
     empty_world\<lparr>movies := [''tt0076759'' \<mapsto> star_wars],
                 genres := {''Action''},
                 movie_genres := (\<lambda>i. {})(''tt0076759'' := {''Action''})\<rparr>"

text \<open>
  A store that refuses the movie of one external ID, and a third search result.
\<close>

definition refuses :: "string \<Rightarrow> store_op \<Rightarrow> bool" where
  "refuses i op = (case op of MovieGetOrCreate j t y \<Rightarrow> j = i | _ \<Rightarrow> False)"

definition result_c :: omdb_movie where
  "result_c =
     \<lparr>om_imdb_id = ''tt0086190'', om_title = ''Star Wars: Episode VI'', om_year = 1983\<rparr>"

definition three_results_client :: omdb_client where
  "three_results_client =
     \<lparr>get_by_imdb_id = (\<lambda>i. Inl ClientError),
      search = (\<lambda>q. ([result_a, result_b, result_c], None))\<rparr>"

text \<open>
  The details of the stored movie as the client gives them, a client that has them, and a
  world in which the movie is a partial record with one genre, and two genres exist.
\<close>

definition star_wars_details :: movie_details where
  "star_wars_details =
     \<lparr>md_title = ''Star Wars'', md_year = 1977,
      md_plot = ''Luke Skywalker joins forces with a Jedi Knight.'',
      md_runtime_minutes = 121, md_genres = [''Action'', ''Drama'']\<rparr>"

definition details_client :: omdb_client where
  "details_client =
     \<lparr>get_by_imdb_id = (\<lambda>i. if i = ''tt0076759'' then Inr star_wars_details else Inl ClientError),
      search = (\<lambda>q. ([], None))\<rparr>"

definition star_wars_partial :: movie where
  "star_wars_partial = partial_record result_a"

definition partial_stored :: world where
  "partial_stored =
     empty_world\<lparr>movies := [''tt0076759'' \<mapsto> star_wars_partial],
                 genres := {''Action'', ''Adventure''},
                 movie_genres := (\<lambda>i. {})(''tt0076759'' := {''Adventure''})\<rparr>"

subsection \<open>Sequences of operations\<close>

text \<open>
  A call of one of the two operations, with the client and the store as they behave
  during that call, and the world after a sequence of calls. A call that ends with an
  error leaves the world it reached; the next call starts from it.
\<close>

datatype operation =
    FillMovieDetails omdb_client "store_op \<Rightarrow> bool" movie
  | SearchAndSave omdb_client "store_op \<Rightarrow> bool" timestamp string

fun run_operation :: "operation \<Rightarrow> world \<Rightarrow> world" where
  "run_operation (FillMovieDetails omdb fails movie) w =
     snd (snd (fill_movie_details omdb fails movie w))"
| "run_operation (SearchAndSave omdb fails now s) w =
     snd (search_and_save omdb fails now s w)"

fun run_operations :: "operation list \<Rightarrow> world \<Rightarrow> world" where
  "run_operations [] w = w"
| "run_operations (op # ops) w = run_operations ops (run_operation op w)"

text \<open>The movie of an external ID is stored and its full-record flag is true.\<close>

definition stored_full_record :: "world \<Rightarrow> string \<Rightarrow> bool" where
  "stored_full_record w i = (case movies w i of None \<Rightarrow> False | Some m \<Rightarrow> is_full_record m)"

section \<open>Normalization of the search string\<close>

lemma isspace_space: "isspace (CHR '' '')"
  by (simp add: isspace_def)

lemma isspace_lower_char: "isspace (lower_char c) = isspace c"
proof (cases "isupper c")
  case False
  then show ?thesis by (simp add: lower_char_def)
next
  case True
  then have "of_char (char_of (of_char c + 32 :: nat)) = (of_char c + 32 :: nat)"
    by (auto simp: isupper_def Let_def)
  with True show ?thesis
    by (auto simp: lower_char_def isspace_def isupper_def Let_def)
qed

lemma dropWhile_isspace_lower:
  "dropWhile isspace (lower s) = lower (dropWhile isspace s)"
  by (induction s) (simp_all add: lower_def isspace_lower_char)
















section \<open>The loop over the search results\<close>

lemma Movie_get_or_create_frame:
  "api_calls (snd (Movie_get_or_create fails i t y w)) = api_calls w"
  "search_terms (snd (Movie_get_or_create fails i t y w)) = search_terms w"
  "genres (snd (Movie_get_or_create fails i t y w)) = genres w"
  "movie_genres (snd (Movie_get_or_create fails i t y w)) = movie_genres w"
  "logger (snd (Movie_get_or_create fails i t y w)) = logger w"
  by (simp_all add: Movie_get_or_create_def Let_def split: option.split)

lemma save_results_Cons:
  "save_results fails (r # rs) w =
     (if fails (MovieGetOrCreate (om_imdb_id r) (om_title r) (om_year r))
      then (Some DatabaseError, logger_info msg_saving_movie [om_title r, om_imdb_id r] w)
      else save_results fails rs
             (case movies w (om_imdb_id r) of
                Some m \<Rightarrow> logger_info msg_saving_movie [om_title r, om_imdb_id r] w
              | None \<Rightarrow>
                  logger_info msg_movie_created [om_title r]
                    ((logger_info msg_saving_movie [om_title r, om_imdb_id r] w)
                       \<lparr>movies := (movies w)(om_imdb_id r \<mapsto>
                           \<lparr>imdb_id = om_imdb_id r, title = om_title r, year = om_year r,
                            plot = None, runtime_minutes = None, is_full_record = False\<rparr>)\<rparr>)))"
  by (simp add: Movie_get_or_create_def logger_info_def Let_def split: option.split)

declare save_results.simps(2) [simp del]

lemma save_results_api_calls: "api_calls (snd (save_results fails rs w)) = api_calls w"
  by (induction rs arbitrary: w)
     (simp_all add: save_results_Cons logger_info_def split: option.split)

lemma save_results_search_terms: "search_terms (snd (save_results fails rs w)) = search_terms w"
  by (induction rs arbitrary: w)
     (simp_all add: save_results_Cons logger_info_def split: option.split)

lemma save_results_genres: "genres (snd (save_results fails rs w)) = genres w"
  by (induction rs arbitrary: w)
     (simp_all add: save_results_Cons logger_info_def split: option.split)

lemma save_results_movie_genres: "movie_genres (snd (save_results fails rs w)) = movie_genres w"
  by (induction rs arbitrary: w)
     (simp_all add: save_results_Cons logger_info_def split: option.split)

lemma save_results_stored:
  "movies w i = Some m \<Longrightarrow> movies (snd (save_results fails rs w)) i = Some m"
proof (induction rs arbitrary: w)
  case Nil
  then show ?case by simp
next
  case (Cons r rs)
  show ?case
    using Cons.prems
    by (auto simp: save_results_Cons logger_info_def
             split: option.split intro!: Cons.IH)
qed

lemma save_results_append:
  "save_results fails (pre @ post) w =
     (case save_results fails pre w of
        (Some e, w1) \<Rightarrow> (Some e, w1)
      | (None, w1) \<Rightarrow> save_results fails post w1)"
  by (induction pre arbitrary: w)
     (simp_all add: save_results_Cons)

lemma save_results_ok:
  "\<forall>r\<in>set rs. \<not> fails (MovieGetOrCreate (om_imdb_id r) (om_title r) (om_year r)) \<Longrightarrow>
   fst (save_results fails rs w) = None"
  by (induction rs arbitrary: w) (simp_all add: save_results_Cons)

lemma save_results_dom_subset:
  "dom (movies (snd (save_results fails rs w))) \<subseteq> dom (movies w) \<union> om_imdb_id ` set rs"
proof (induction rs arbitrary: w)
  case Nil
  show ?case by simp
next
  case (Cons r rs)
  show ?case
  proof (cases "fails (MovieGetOrCreate (om_imdb_id r) (om_title r) (om_year r))")
    case True
    then show ?thesis
      by (auto simp: save_results_Cons logger_info_def)
  next
    case False
    show ?thesis
    proof (cases "movies w (om_imdb_id r)")
      case None
      with False Cons.IH [of "logger_info msg_movie_created [om_title r]
                    ((logger_info msg_saving_movie [om_title r, om_imdb_id r] w)
                       \<lparr>movies := (movies w)(om_imdb_id r \<mapsto>
                           \<lparr>imdb_id = om_imdb_id r, title = om_title r, year = om_year r,
                            plot = None, runtime_minutes = None, is_full_record = False\<rparr>)\<rparr>)"]
      show ?thesis
        by (auto simp: save_results_Cons logger_info_def)
    next
      case (Some m)
      with False Cons.IH [of "logger_info msg_saving_movie [om_title r, om_imdb_id r] w"]
      show ?thesis
        by (auto simp: save_results_Cons logger_info_def)
    qed
  qed
qed

lemma save_results_dom:
  "fst (save_results fails rs w) = None \<Longrightarrow>
   dom (movies (snd (save_results fails rs w))) = dom (movies w) \<union> om_imdb_id ` set rs"
proof (induction rs arbitrary: w)
  case Nil
  show ?case by simp
next
  case (Cons r rs)
  from Cons.prems have nf: "\<not> fails (MovieGetOrCreate (om_imdb_id r) (om_title r) (om_year r))"
    by (auto simp: save_results_Cons split: if_splits)
  show ?case
  proof (cases "movies w (om_imdb_id r)")
    case None
    with Cons.prems nf Cons.IH show ?thesis
      by (auto simp add: save_results_Cons logger_info_def)
  next
    case (Some m)
    with Cons.prems nf Cons.IH show ?thesis
      by (auto simp add: save_results_Cons logger_info_def)
  qed
qed

section \<open>The cases of \<open>search_and_save\<close>\<close>

lemma search_and_save_fails:
  "fails (SearchTermGetOrCreate (normalized_search_term s)) \<Longrightarrow>
   search_and_save omdb fails now s w = (Some DatabaseError, w)"
  by (simp add: search_and_save_def SearchTerm_get_or_create_def)

lemma search_and_save_recent:
  assumes "\<not> fails (SearchTermGetOrCreate (normalized_search_term s))"
    and "searched_recently now (normalized_search_term s) w"
  shows "search_and_save omdb fails now s w =
         (None, logger_warning msg_searched_recently [normalized_search_term s] w)"
  using assms
  by (simp add: search_and_save_def SearchTerm_get_or_create_def searched_recently_def
           split: option.splits)

lemma search_and_save_proceeds:
  assumes nf: "\<not> fails (SearchTermGetOrCreate (normalized_search_term s))"
    and old: "\<not> searched_recently now (normalized_search_term s) w"
  shows "search_and_save omdb fails now s w =
     (case save_results fails (fst (search omdb s)) (search_started fails now s w) of
        (Some e, w3) \<Rightarrow> (Some e, w3)
      | (None, w3) \<Rightarrow>
          (case snd (search omdb s) of
             Some e \<Rightarrow> (Some e, w3)
           | None \<Rightarrow>
               if fails (SearchTermSave (normalized_search_term s)) then (Some DatabaseError, w3)
               else (None, w3\<lparr>search_terms := (search_terms w3)(normalized_search_term s \<mapsto> now)\<rparr>)))"
proof (cases "search_terms w (normalized_search_term s)")
  case None
  with nf show ?thesis
    by (simp add: search_and_save_def SearchTerm_get_or_create_def SearchTerm_save_def Let_def
             split: prod.split option.split)
next
  case (Some ts)
  with old have "\<not> now - timedelta_days_1 < ts" by (simp add: searched_recently_def)
  with nf Some show ?thesis
    by (simp add: search_and_save_def SearchTerm_get_or_create_def SearchTerm_save_def Let_def
             split: prod.split option.split)
qed

lemma search_started_movies: "movies (search_started fails now s w) = movies w"
  by (simp add: SearchTerm_get_or_create_def split: option.split)

lemma search_started_movie_genres: "movie_genres (search_started fails now s w) = movie_genres w"
  by (simp add: SearchTerm_get_or_create_def split: option.split)

lemma search_started_genres: "genres (search_started fails now s w) = genres w"
  by (simp add: SearchTerm_get_or_create_def split: option.split)

lemma search_and_save_api_calls:
  assumes nf: "\<not> fails (SearchTermGetOrCreate (normalized_search_term s))"
    and old: "\<not> searched_recently now (normalized_search_term s) w"
  shows "api_calls (snd (search_and_save omdb fails now s w)) = api_calls w @ [Search s]"
proof -
  have "api_calls (snd (save_results fails (fst (search omdb s)) (search_started fails now s w)))
        = api_calls w @ [Search s]"
    by (simp add: save_results_api_calls)
  with nf old show ?thesis
    by (auto simp add: search_and_save_proceeds split: prod.split option.split)
qed

lemma search_and_save_stored:
  assumes "movies w i = Some m"
  shows "movies (snd (search_and_save omdb fails now s w)) i = Some m"
proof -
  let ?k = "normalized_search_term s"
  have loop: "movies (snd (save_results fails rs (search_started fails now s w))) i = Some m" for rs
    using assms by (intro save_results_stored) (simp add: search_started_movies)
  show ?thesis
  proof (cases "fails (SearchTermGetOrCreate ?k)")
    case True
    with assms show ?thesis by (simp add: search_and_save_fails)
  next
    case nf: False
    show ?thesis
    proof (cases "searched_recently now ?k w")
      case True
      with nf assms show ?thesis
        by (simp add: search_and_save_recent logger_warning_def)
    next
      case old: False
      have "movies (snd (save_results fails (fst (search omdb s)) (search_started fails now s w))) i = Some m"
        by (rule loop)
      with nf old show ?thesis
        by (auto simp add: search_and_save_proceeds split: prod.split option.split)
    qed
  qed
qed

lemma search_and_save_movie_genres:
  "movie_genres (snd (search_and_save omdb fails now s w)) = movie_genres w"
proof -
  let ?k = "normalized_search_term s"
  have loop: "movie_genres (snd (save_results fails rs (search_started fails now s w))) = movie_genres w" for rs
    by (simp add: save_results_movie_genres search_started_movie_genres)
  show ?thesis
  proof (cases "fails (SearchTermGetOrCreate ?k)")
    case True
    then show ?thesis by (simp add: search_and_save_fails)
  next
    case nf: False
    show ?thesis
    proof (cases "searched_recently now ?k w")
      case True
      with nf show ?thesis
        by (simp add: search_and_save_recent logger_warning_def)
    next
      case old: False
      have "movie_genres (snd (save_results fails (fst (search omdb s)) (search_started fails now s w))) = movie_genres w"
        by (rule loop)
      with nf old show ?thesis
        by (auto simp add: search_and_save_proceeds split: prod.split option.split)
    qed
  qed
qed

section \<open>The recency check\<close>

lemma normalized_star_wars: "normalized_search_term ''star wars'' = ''star wars''"
  by code_simp

lemma searched_at_simps:
  "search_terms (searched_at k ts) k = Some ts"
  "api_calls (searched_at k ts) = []"
  "movies (searched_at k ts) = Map.empty"
  by (simp_all add: searched_at_def empty_world_def)

text \<open>
  C1, as stated, with the lower bound \<open>now - 24h\<close> included: a SearchTerm last searched
  exactly 24 hours ago would be skipped. It is not: the client's search is called and the
  time stamp becomes the current time.
\<close>

theorem search_and_save_24_hours_old_counterexample:
  "search_terms (searched_at ''star wars'' (example_now - hours 24))
       (normalized_search_term ''star wars'') = Some (example_now - timedelta_days_1) \<and>
   api_calls (snd (search_and_save no_results_client no_failure example_now ''star wars''
       (searched_at ''star wars'' (example_now - hours 24)))) = [Search ''star wars''] \<and>
   search_terms (snd (search_and_save no_results_client no_failure example_now ''star wars''
       (searched_at ''star wars'' (example_now - hours 24)))) ''star wars'' = Some example_now"
  by (simp add: search_and_save_def SearchTerm_get_or_create_def SearchTerm_save_def
        normalized_star_wars searched_at_simps no_failure_def no_results_client_def
        hours_def timedelta_days_1_def example_now_def)

text \<open>
  C1, amended: the lower bound is excluded. When the SearchTerm of the normalized search
  string exists and its time stamp is later than \<open>now - 24h\<close>, the call logs a warning
  and returns; the client is not called and the time stamp stays. When the time stamp is
  \<open>now - 24h\<close> or earlier, the client's search is called. So a term last searched 23
  hours ago is skipped and one last searched 25 hours ago proceeds.
\<close>

theorem search_and_save_recent_skipped:
  assumes "search_terms w (normalized_search_term s) = Some ts"
    and "\<not> fails (SearchTermGetOrCreate (normalized_search_term s))"
  shows "(now - timedelta_days_1 < ts \<longrightarrow>
            search_and_save omdb fails now s w =
              (None, logger_warning msg_searched_recently [normalized_search_term s] w) \<and>
            api_calls (snd (search_and_save omdb fails now s w)) = api_calls w \<and>
            search_terms (snd (search_and_save omdb fails now s w)) = search_terms w) \<and>
         (ts \<le> now - timedelta_days_1 \<longrightarrow>
            api_calls (snd (search_and_save omdb fails now s w)) = api_calls w @ [Search s])"
proof (intro conjI impI)
  assume recent: "now - timedelta_days_1 < ts"
  with assms have "searched_recently now (normalized_search_term s) w"
    by (simp add: searched_recently_def)
  with assms(2) show skip: "search_and_save omdb fails now s w =
      (None, logger_warning msg_searched_recently [normalized_search_term s] w)"
    by (rule search_and_save_recent)
  show "api_calls (snd (search_and_save omdb fails now s w)) = api_calls w"
    by (simp add: skip logger_warning_def)
  show "search_terms (snd (search_and_save omdb fails now s w)) = search_terms w"
    by (simp add: skip logger_warning_def)
next
  assume "ts \<le> now - timedelta_days_1"
  with assms have "\<not> searched_recently now (normalized_search_term s) w"
    by (simp add: searched_recently_def)
  with assms(2) show "api_calls (snd (search_and_save omdb fails now s w)) = api_calls w @ [Search s]"
    by (rule search_and_save_api_calls)
qed

theorem search_and_save_recent_skipped_witness:
  "search_and_save no_results_client no_failure example_now ''star wars''
       (searched_at ''star wars'' (example_now - hours 23)) =
     (None, logger_warning msg_searched_recently [''star wars'']
              (searched_at ''star wars'' (example_now - hours 23))) \<and>
   api_calls (snd (search_and_save no_results_client no_failure example_now ''star wars''
       (searched_at ''star wars'' (example_now - hours 25)))) = [Search ''star wars'']"
proof -
  have nf: "\<not> no_failure (SearchTermGetOrCreate (normalized_search_term ''star wars''))"
    by (simp add: no_failure_def)
  have s23: "search_terms (searched_at ''star wars'' (example_now - hours 23))
               (normalized_search_term ''star wars'') = Some (example_now - hours 23)"
    by (simp add: normalized_star_wars searched_at_simps)
  have s25: "search_terms (searched_at ''star wars'' (example_now - hours 25))
               (normalized_search_term ''star wars'') = Some (example_now - hours 25)"
    by (simp add: normalized_star_wars searched_at_simps)
  have t23: "example_now - timedelta_days_1 < example_now - hours 23"
    by (simp add: hours_def timedelta_days_1_def)
  have t25: "example_now - hours 25 \<le> example_now - timedelta_days_1"
    by (simp add: hours_def timedelta_days_1_def)
  show ?thesis
    using search_and_save_recent_skipped [where fails = no_failure and s = "''star wars''"
        and w = "searched_at ''star wars'' (example_now - hours 23)"
        and ts = "example_now - hours 23" and now = example_now and omdb = no_results_client]
      search_and_save_recent_skipped [where fails = no_failure and s = "''star wars''"
        and w = "searched_at ''star wars'' (example_now - hours 25)"
        and ts = "example_now - hours 25" and now = example_now and omdb = no_results_client]
      nf s23 s25 t23 t25
    by (simp add: normalized_star_wars searched_at_simps)
qed

section \<open>Stored movies and search results\<close>

text \<open>
  C5. A movie that is stored when \<open>search_and_save\<close> is called is the same afterwards,
  whatever the client returns and whatever fails: every field of its row (title, year and
  full-record flag among them) and its genres. In particular this holds for the movie
  that the external ID of a search result identifies.
\<close>

theorem search_and_save_existing_unchanged:
  assumes "movies w i = Some m"
  shows "movies (snd (search_and_save omdb fails now s w)) i = Some m \<and>
         movie_genres (snd (search_and_save omdb fails now s w)) i = movie_genres w i"
  using assms by (simp add: search_and_save_stored search_and_save_movie_genres)

theorem search_and_save_existing_unchanged_witness:
  "om_imdb_id (hd (fst (search two_results_client ''star wars''))) = ''tt0076759'' \<and>
   movies star_wars_stored ''tt0076759'' = Some star_wars \<and>
   movies (snd (search_and_save two_results_client no_failure example_now ''star wars''
                  star_wars_stored)) ''tt0076759'' = Some star_wars \<and>
   movie_genres (snd (search_and_save two_results_client no_failure example_now ''star wars''
                  star_wars_stored)) ''tt0076759'' = {''Action''}"
proof -
  have stored: "movies star_wars_stored ''tt0076759'' = Some star_wars"
    by (simp add: star_wars_stored_def)
  have "om_imdb_id (hd (fst (search two_results_client ''star wars''))) = ''tt0076759''"
    by (simp add: two_results_client_def two_results_def result_a_def)
  moreover have "movie_genres star_wars_stored ''tt0076759'' = {''Action''}"
    by (simp add: star_wars_stored_def)
  ultimately show ?thesis
    using search_and_save_existing_unchanged [where w = star_wars_stored and i = "''tt0076759''"
        and m = star_wars and omdb = two_results_client and fails = no_failure
        and now = example_now and s = "''star wars''"] stored
    by simp
qed

section \<open>New movies, failures and the time stamp\<close>

lemma save_results_movies_cong:
  "movies w = movies w' \<Longrightarrow>
   movies (snd (save_results fails rs w)) = movies (snd (save_results fails rs w')) \<and>
   fst (save_results fails rs w) = fst (save_results fails rs w')"
proof (induction rs arbitrary: w w')
  case Nil
  then show ?case by simp
next
  case (Cons r rs)
  show ?case
  proof (cases "get_or_create_fails fails r")
    case True
    with Cons.prems show ?thesis by (simp add: save_results_Cons logger_info_def)
  next
    case False
    show ?thesis
    proof (cases "movies w (om_imdb_id r)")
      case None
      with Cons.prems have "movies w' (om_imdb_id r) = None" by simp
      with None False Cons.prems show ?thesis
        by (simp add: save_results_Cons) (rule Cons.IH, simp add: logger_info_def)
    next
      case (Some m)
      with Cons.prems have "movies w' (om_imdb_id r) = Some m" by simp
      with Some False Cons.prems show ?thesis
        by (simp add: save_results_Cons) (rule Cons.IH, simp add: logger_info_def)
    qed
  qed
qed

lemma save_results_append_ok:
  "fst (save_results fails pre w) = None \<Longrightarrow>
   save_results fails (pre @ post) w = save_results fails post (snd (save_results fails pre w))"
  by (simp add: save_results_append case_prod_unfold)

lemma save_results_created:
  assumes ok: "\<forall>p\<in>set (pre @ [r]). \<not> get_or_create_fails fails p"
    and new: "om_imdb_id r \<notin> dom (movies w)"
    and first: "om_imdb_id r \<notin> om_imdb_id ` set pre"
  shows "movies (snd (save_results fails (pre @ r # post) w)) (om_imdb_id r) = Some (partial_record r)"
proof -
  let ?w1 = "snd (save_results fails pre w)"
  from ok have pre_ok: "fst (save_results fails pre w) = None"
    by (intro save_results_ok) simp
  have "dom (movies ?w1) \<subseteq> dom (movies w) \<union> om_imdb_id ` set pre"
    by (rule save_results_dom_subset)
  with new first have none: "movies ?w1 (om_imdb_id r) = None" by blast
  from ok have r_ok: "\<not> get_or_create_fails fails r" by simp
  have split: "save_results fails (pre @ r # post) w = save_results fails (r # post) ?w1"
    using pre_ok by (rule save_results_append_ok)
  show ?thesis
    unfolding split using none r_ok
    by (simp add: save_results_Cons)
       (rule save_results_stored, simp add: logger_info_def partial_record_def)
qed

lemma save_results_stops:
  assumes ok: "\<forall>p\<in>set pre. \<not> get_or_create_fails fails p"
    and bad: "get_or_create_fails fails r"
  shows "save_results fails (pre @ r # post) w =
         (Some DatabaseError,
          logger_info msg_saving_movie [om_title r, om_imdb_id r] (snd (save_results fails pre w)))"
proof -
  from ok have "fst (save_results fails pre w) = None" by (rule save_results_ok)
  with bad show ?thesis
    by (simp add: save_results_append_ok save_results_Cons)
qed

lemma search_and_save_movies:
  assumes nf: "\<not> fails (SearchTermGetOrCreate (normalized_search_term s))"
    and old: "\<not> searched_recently now (normalized_search_term s) w"
  shows "movies (snd (search_and_save omdb fails now s w)) =
         movies (snd (save_results fails (fst (search omdb s)) w))"
proof -
  have "movies (snd (save_results fails (fst (search omdb s)) (search_started fails now s w))) =
        movies (snd (save_results fails (fst (search omdb s)) w))"
    using save_results_movies_cong [of "search_started fails now s w" w fails "fst (search omdb s)"]
    by (simp add: search_started_movies)
  with nf old show ?thesis
    by (auto simp add: search_and_save_proceeds split: prod.split option.split)
qed

lemma search_and_save_dom:
  assumes nf: "\<not> fails (SearchTermGetOrCreate (normalized_search_term s))"
    and old: "\<not> searched_recently now (normalized_search_term s) w"
    and ok: "\<forall>p\<in>set (fst (search omdb s)). \<not> get_or_create_fails fails p"
  shows "dom (movies (snd (search_and_save omdb fails now s w))) =
         dom (movies w) \<union> om_imdb_id ` set (fst (search omdb s))"
proof -
  from ok have "fst (save_results fails (fst (search omdb s)) w) = None"
    by (rule save_results_ok)
  then have "dom (movies (snd (save_results fails (fst (search omdb s)) w))) =
             dom (movies w) \<union> om_imdb_id ` set (fst (search omdb s))"
    by (rule save_results_dom)
  with nf old show ?thesis by (simp add: search_and_save_movies)
qed

lemma search_started_search_terms:
  "\<not> fails (SearchTermGetOrCreate (normalized_search_term s)) \<Longrightarrow>
   (search_terms (search_started fails now s w))(normalized_search_term s \<mapsto> now) =
   (search_terms w)(normalized_search_term s \<mapsto> now)"
  by (simp add: SearchTerm_get_or_create_def split: option.split)

text \<open>
  C6. A search result whose external ID identifies no stored movie when the loop reaches it
  (none was stored before the call and no earlier result of the same search has the ID)
  gets a new Movie with the title and the year of the result and the full-record flag
  false, provided the store accepts the results up to it. When the store accepts all
  results, the stored movies afterwards are those of before and one for each external ID
  of the results: two unknown IDs give exactly two new partial records.
\<close>

theorem search_and_save_creates_partial_record:
  assumes nf: "\<not> fails (SearchTermGetOrCreate (normalized_search_term s))"
    and old: "\<not> searched_recently now (normalized_search_term s) w"
    and res: "fst (search omdb s) = pre @ r # post"
    and ok: "\<forall>p\<in>set (pre @ [r]). \<not> get_or_create_fails fails p"
    and new: "om_imdb_id r \<notin> dom (movies w)"
    and first: "om_imdb_id r \<notin> om_imdb_id ` set pre"
  shows "movies (snd (search_and_save omdb fails now s w)) (om_imdb_id r) =
           Some \<lparr>imdb_id = om_imdb_id r, title = om_title r, year = om_year r, plot = None,
                 runtime_minutes = None, is_full_record = False\<rparr> \<and>
         ((\<forall>p\<in>set post. \<not> get_or_create_fails fails p) \<longrightarrow>
            dom (movies (snd (search_and_save omdb fails now s w))) =
            dom (movies w) \<union> om_imdb_id ` set (pre @ r # post))"
proof (intro conjI impI)
  have "movies (snd (save_results fails (pre @ r # post) w)) (om_imdb_id r) = Some (partial_record r)"
    using ok new first by (rule save_results_created)
  with nf old res
  show "movies (snd (search_and_save omdb fails now s w)) (om_imdb_id r) =
           Some \<lparr>imdb_id = om_imdb_id r, title = om_title r, year = om_year r, plot = None,
                 runtime_minutes = None, is_full_record = False\<rparr>"
    by (simp add: search_and_save_movies partial_record_def)
next
  assume "\<forall>p\<in>set post. \<not> get_or_create_fails fails p"
  with ok res have "\<forall>p\<in>set (fst (search omdb s)). \<not> get_or_create_fails fails p"
    by auto
  with nf old have "dom (movies (snd (search_and_save omdb fails now s w))) =
         dom (movies w) \<union> om_imdb_id ` set (fst (search omdb s))"
    by (rule search_and_save_dom)
  with res show "dom (movies (snd (search_and_save omdb fails now s w))) =
            dom (movies w) \<union> om_imdb_id ` set (pre @ r # post)"
    by simp
qed

lemma no_failure_simp: "\<not> no_failure x"
  by (simp add: no_failure_def)

lemma not_searched_recently_empty: "\<not> searched_recently now k empty_world"
  by (simp add: searched_recently_def empty_world_def)

theorem search_and_save_creates_partial_record_witness:
  "movies (snd (search_and_save two_results_client no_failure example_now ''star wars''
                  empty_world)) ''tt0076759'' =
     Some \<lparr>imdb_id = ''tt0076759'', title = ''Star Wars: Episode IV - A New Hope'',
           year = 1977, plot = None, runtime_minutes = None, is_full_record = False\<rparr> \<and>
   movies (snd (search_and_save two_results_client no_failure example_now ''star wars''
                  empty_world)) ''tt0080684'' =
     Some \<lparr>imdb_id = ''tt0080684'', title = ''Star Wars: Episode V'',
           year = 1980, plot = None, runtime_minutes = None, is_full_record = False\<rparr> \<and>
   dom (movies (snd (search_and_save two_results_client no_failure example_now ''star wars''
                  empty_world))) = {''tt0076759'', ''tt0080684''}"
proof -
  let ?w = "snd (search_and_save two_results_client no_failure example_now ''star wars'' empty_world)"
  have nf: "\<not> no_failure (SearchTermGetOrCreate (normalized_search_term ''star wars''))"
    by (rule no_failure_simp)
  have old: "\<not> searched_recently example_now (normalized_search_term ''star wars'') empty_world"
    by (rule not_searched_recently_empty)
  have res_a: "fst (search two_results_client ''star wars'') = [] @ result_a # [result_b]"
    and res_b: "fst (search two_results_client ''star wars'') = [result_a] @ result_b # []"
    by (simp_all add: two_results_client_def two_results_def)
  have ok_a: "\<forall>p\<in>set ([] @ [result_a]). \<not> get_or_create_fails no_failure p"
    and ok_b: "\<forall>p\<in>set ([result_a] @ [result_b]). \<not> get_or_create_fails no_failure p"
    and ok_post: "\<forall>p\<in>set []. \<not> get_or_create_fails no_failure p"
    by (simp_all add: no_failure_simp)
  have new_a: "om_imdb_id result_a \<notin> dom (movies empty_world)"
    and new_b: "om_imdb_id result_b \<notin> dom (movies empty_world)"
    by (simp_all add: empty_world_def)
  have first_a: "om_imdb_id result_a \<notin> om_imdb_id ` set []"
    by simp
  have first_b: "om_imdb_id result_b \<notin> om_imdb_id ` set [result_a]"
    by (simp add: result_a_def result_b_def)
  note a = search_and_save_creates_partial_record [where fails = no_failure and omdb = two_results_client,
      OF nf old res_a ok_a new_a first_a]
  note b = search_and_save_creates_partial_record [where fails = no_failure and omdb = two_results_client,
      OF nf old res_b ok_b new_b first_b]
  have 1: "movies ?w ''tt0076759'' =
             Some \<lparr>imdb_id = ''tt0076759'', title = ''Star Wars: Episode IV - A New Hope'',
                   year = 1977, plot = None, runtime_minutes = None, is_full_record = False\<rparr>"
    using a [THEN conjunct1] by (simp add: result_a_def)
  have 2: "movies ?w ''tt0080684'' =
             Some \<lparr>imdb_id = ''tt0080684'', title = ''Star Wars: Episode V'',
                   year = 1980, plot = None, runtime_minutes = None, is_full_record = False\<rparr>"
    using b [THEN conjunct1] by (simp add: result_b_def)
  have "dom (movies ?w) = dom (movies empty_world) \<union> om_imdb_id ` set ([result_a] @ result_b # [])"
    using b [THEN conjunct2] ok_post by (rule mp)
  then have 3: "dom (movies ?w) = {''tt0076759'', ''tt0080684''}"
    by (simp add: empty_world_def result_a_def result_b_def)
  from 1 2 3 show ?thesis by (intro conjI)
qed

section \<open>A failure in the loop\<close>

text \<open>
  C9. When the store refuses the movie of one search result (and accepted the earlier
  ones), \<open>search_and_save\<close> ends with that error. The world it leaves is the one in
  which the loop had handled the earlier results, with the log record of the refused
  result added: nothing of the later results is in it, whatever they are, and the movies
  stored are those that the loop over the earlier results alone leaves, so every movie
  made for an earlier result is stored.
\<close>

theorem search_and_save_persist_failure:
  assumes nf: "\<not> fails (SearchTermGetOrCreate (normalized_search_term s))"
    and old: "\<not> searched_recently now (normalized_search_term s) w"
    and res: "fst (search omdb s) = pre @ r # post"
    and ok: "\<forall>p\<in>set pre. \<not> get_or_create_fails fails p"
    and bad: "get_or_create_fails fails r"
  shows "search_and_save omdb fails now s w =
           (Some DatabaseError,
            logger_info msg_saving_movie [om_title r, om_imdb_id r]
              (snd (save_results fails pre (search_started fails now s w)))) \<and>
         fst (save_results fails pre w) = None \<and>
         movies (snd (search_and_save omdb fails now s w)) =
           movies (snd (save_results fails pre w)) \<and>
         om_imdb_id ` set pre \<subseteq> dom (movies (snd (search_and_save omdb fails now s w)))"
proof -
  have stop: "save_results fails (pre @ r # post) (search_started fails now s w) =
      (Some DatabaseError,
       logger_info msg_saving_movie [om_title r, om_imdb_id r]
         (snd (save_results fails pre (search_started fails now s w))))"
    using ok bad by (rule save_results_stops)
  have 1: "search_and_save omdb fails now s w =
           (Some DatabaseError,
            logger_info msg_saving_movie [om_title r, om_imdb_id r]
              (snd (save_results fails pre (search_started fails now s w))))"
    using nf old by (simp add: search_and_save_proceeds res stop)
  have 2: "fst (save_results fails pre w) = None"
    using ok by (rule save_results_ok)
  have "movies (snd (save_results fails pre (search_started fails now s w))) =
        movies (snd (save_results fails pre w))"
    using save_results_movies_cong [of "search_started fails now s w" w fails pre]
    by (simp add: search_started_movies)
  then have 3: "movies (snd (search_and_save omdb fails now s w)) =
           movies (snd (save_results fails pre w))"
    by (simp add: 1 logger_info_def)
  have "dom (movies (snd (save_results fails pre w))) = dom (movies w) \<union> om_imdb_id ` set pre"
    using 2 by (rule save_results_dom)
  then have 4: "om_imdb_id ` set pre \<subseteq> dom (movies (snd (search_and_save omdb fails now s w)))"
    by (simp add: 3)
  from 1 2 3 4 show ?thesis by (intro conjI)
qed

theorem search_and_save_persist_failure_witness:
  "fst (search_and_save three_results_client (refuses ''tt0080684'') example_now ''star wars''
          empty_world) = Some DatabaseError \<and>
   movies (snd (search_and_save three_results_client (refuses ''tt0080684'') example_now
                  ''star wars'' empty_world)) ''tt0076759'' = Some (partial_record result_a) \<and>
   movies (snd (search_and_save three_results_client (refuses ''tt0080684'') example_now
                  ''star wars'' empty_world)) ''tt0080684'' = None \<and>
   movies (snd (search_and_save three_results_client (refuses ''tt0080684'') example_now
                  ''star wars'' empty_world)) ''tt0086190'' = None"
proof -
  let ?fails = "refuses ''tt0080684''"
  let ?r = "search_and_save three_results_client ?fails example_now ''star wars'' empty_world"
  have nf: "\<not> ?fails (SearchTermGetOrCreate (normalized_search_term ''star wars''))"
    by (simp add: refuses_def)
  have old: "\<not> searched_recently example_now (normalized_search_term ''star wars'') empty_world"
    by (rule not_searched_recently_empty)
  have res: "fst (search three_results_client ''star wars'') = [result_a] @ result_b # [result_c]"
    by (simp add: three_results_client_def)
  have ok: "\<forall>p\<in>set [result_a]. \<not> get_or_create_fails ?fails p"
    by (simp add: refuses_def result_a_def)
  have bad: "get_or_create_fails ?fails result_b"
    by (simp add: refuses_def result_b_def)
  note t = search_and_save_persist_failure [where fails = ?fails and omdb = three_results_client,
      OF nf old res ok bad]
  have 1: "fst ?r = Some DatabaseError"
    using t [THEN conjunct1] by simp
  have m: "movies (snd ?r) = movies (snd (save_results ?fails [result_a] empty_world))"
    using t [THEN conjunct2, THEN conjunct2, THEN conjunct1] .
  have a: "\<not> get_or_create_fails ?fails result_a"
    using ok by simp
  have loop: "movies (snd (save_results ?fails [result_a] empty_world)) =
      [om_imdb_id result_a \<mapsto> partial_record result_a]"
    using a by (simp add: save_results_Cons empty_world_def logger_info_def partial_record_def)
  have 2: "movies (snd ?r) ''tt0076759'' = Some (partial_record result_a)"
    by (simp add: m loop) (simp add: result_a_def)
  have 3: "movies (snd ?r) ''tt0080684'' = None"
    by (simp add: m loop) (simp add: result_a_def)
  have 4: "movies (snd ?r) ''tt0086190'' = None"
    by (simp add: m loop) (simp add: result_a_def)
  from 1 2 3 4 show ?thesis by (intro conjI)
qed

section \<open>The time stamp after a search\<close>

lemma timedelta_days_1_pos: "0 < timedelta_days_1"
  by (simp add: timedelta_days_1_def)

text \<open>
  C3. When the recency check is passed, the client's search returns (it yields its
  results and does not fail), and the store accepts every result and the final save, the
  call ends without error and the SearchTerm of the normalized search string has the
  current time as its time stamp; the other SearchTerms are as before. This holds for
  any list of results, the empty one too. From then on the term counts as searched
  recently, so a search for it at the same time is skipped.
\<close>

theorem search_and_save_updates_timestamp:
  assumes nf: "\<not> fails (SearchTermGetOrCreate (normalized_search_term s))"
    and old: "\<not> searched_recently now (normalized_search_term s) w"
    and res: "search omdb s = (results, None)"
    and ok: "\<forall>r\<in>set results. \<not> get_or_create_fails fails r"
    and save_ok: "\<not> fails (SearchTermSave (normalized_search_term s))"
  shows "fst (search_and_save omdb fails now s w) = None \<and>
         search_terms (snd (search_and_save omdb fails now s w)) =
           (search_terms w)(normalized_search_term s \<mapsto> now) \<and>
         searched_recently now (normalized_search_term s)
           (snd (search_and_save omdb fails now s w))"
proof -
  let ?w3 = "snd (save_results fails results (search_started fails now s w))"
  from ok have loop: "fst (save_results fails results (search_started fails now s w)) = None"
    by (rule save_results_ok)
  have eq: "search_and_save omdb fails now s w =
      (None, ?w3\<lparr>search_terms := (search_terms ?w3)(normalized_search_term s \<mapsto> now)\<rparr>)"
    using nf old save_ok loop
    by (simp add: search_and_save_proceeds res case_prod_unfold)
  have "(search_terms (snd (SearchTerm_get_or_create fails now (normalized_search_term s) w)))
          (normalized_search_term s \<mapsto> now) =
        (search_terms w)(normalized_search_term s \<mapsto> now)"
    using nf by (simp add: SearchTerm_get_or_create_def split: option.split)
  then have st: "(search_terms ?w3)(normalized_search_term s \<mapsto> now) =
      (search_terms w)(normalized_search_term s \<mapsto> now)"
    by (simp add: save_results_search_terms)
  have 1: "fst (search_and_save omdb fails now s w) = None"
    by (simp add: eq)
  have 2: "search_terms (snd (search_and_save omdb fails now s w)) =
           (search_terms w)(normalized_search_term s \<mapsto> now)"
    by (simp add: eq st)
  have 3: "searched_recently now (normalized_search_term s)
           (snd (search_and_save omdb fails now s w))"
    using timedelta_days_1_pos by (simp add: searched_recently_def 2)
  from 1 2 3 show ?thesis by (intro conjI)
qed

theorem search_and_save_updates_timestamp_witness:
  "fst (search no_results_client ''star wars'') = [] \<and>
   fst (search_and_save no_results_client no_failure example_now ''star wars'' empty_world) = None \<and>
   search_terms (snd (search_and_save no_results_client no_failure example_now ''star wars''
                        empty_world)) ''star wars'' = Some example_now \<and>
   searched_recently example_now ''star wars''
     (snd (search_and_save no_results_client no_failure example_now ''star wars'' empty_world))"
proof -
  have nf: "\<not> no_failure (SearchTermGetOrCreate (normalized_search_term ''star wars''))"
    by (rule no_failure_simp)
  have old: "\<not> searched_recently example_now (normalized_search_term ''star wars'') empty_world"
    by (rule not_searched_recently_empty)
  have res: "search no_results_client ''star wars'' = ([], None)"
    by (simp add: no_results_client_def)
  have ok: "\<forall>r\<in>set []. \<not> get_or_create_fails no_failure r"
    by simp
  have save_ok: "\<not> no_failure (SearchTermSave (normalized_search_term ''star wars''))"
    by (rule no_failure_simp)
  note t = search_and_save_updates_timestamp [where fails = no_failure and omdb = no_results_client,
      OF nf old res ok save_ok]
  have 0: "fst (search no_results_client ''star wars'') = []"
    by (simp add: res)
  from t 0 show ?thesis
    by (simp add: normalized_star_wars)
qed

section \<open>White space at the ends of the search string\<close>

lemma re_sub_spaces_append:
  "xs = [] \<or> \<not> isspace (last xs) \<Longrightarrow>
   re_sub_spaces (xs @ ys) = re_sub_spaces xs @ re_sub_spaces ys"
proof (induction xs rule: re_sub_spaces.induct)
  case 1
  then show ?case by simp
next
  case (2 c cs)
  show ?case
  proof (cases "isspace c")
    case False
    with 2 show ?thesis by (auto split: if_splits)
  next
    case True
    with "2.prems" have ne: "cs \<noteq> []" and nl: "\<not> isspace (last cs)"
      by (auto split: if_splits)
    then have in_set: "last cs \<in> set cs" by simp
    have dw: "dropWhile isspace (cs @ ys) = dropWhile isspace cs @ ys"
      using in_set nl by (rule dropWhile_append1)
    have ne': "dropWhile isspace cs \<noteq> []"
      using in_set nl by (auto simp: dropWhile_eq_Nil_conv)
    have "last (dropWhile isspace cs) = last cs"
      using ne' by (metis last_appendR takeWhile_dropWhile_id)
    with "2.IH"(1)[OF True] ne' nl
    have "re_sub_spaces (dropWhile isspace cs @ ys) =
          re_sub_spaces (dropWhile isspace cs) @ re_sub_spaces ys"
      by simp
    with True dw show ?thesis by simp
  qed
qed

lemma re_sub_spaces_run:
  assumes "ws \<noteq> []" and "\<forall>c\<in>set ws. isspace c"
  shows "re_sub_spaces (ws @ rest) = CHR '' '' # re_sub_spaces (dropWhile isspace rest)"
proof -
  from assms obtain c ws' where ws: "ws = c # ws'" by (cases ws) auto
  with assms have c: "isspace c" and ws': "\<forall>x\<in>set ws'. isspace x" by auto
  from ws' have "dropWhile isspace (ws' @ rest) = dropWhile isspace rest"
    by (simp add: dropWhile_append2)
  with c ws show ?thesis by simp
qed

lemma lower_spaces:
  "(\<forall>c\<in>set (lower ws). isspace c) = (\<forall>c\<in>set ws. isspace c)"
  by (simp add: lower_def isspace_lower_char)

lemma lower_append: "lower (xs @ ys) = lower xs @ lower ys"
  by (simp add: lower_def)

lemma isspace_hd_lower: "rest \<noteq> [] \<Longrightarrow> isspace (hd (lower rest)) = isspace (hd rest)"
  by (cases rest) (simp_all add: lower_def isspace_lower_char)

lemma isspace_last_lower: "rest \<noteq> [] \<Longrightarrow> isspace (last (lower rest)) = isspace (last rest)"
  by (simp add: lower_def last_map isspace_lower_char)

lemma normalized_leading:
  assumes "ws \<noteq> []" and "\<forall>c\<in>set ws. isspace c" and "rest = [] \<or> \<not> isspace (hd rest)"
  shows "normalized_search_term (ws @ rest) = CHR '' '' # normalized_search_term rest"
proof -
  from assms(3) have "dropWhile isspace (lower rest) = lower rest"
    by (cases rest) (auto simp: lower_def isspace_lower_char)
  moreover from assms(1,2) have "lower ws \<noteq> []" "\<forall>c\<in>set (lower ws). isspace c"
    by (simp_all add: lower_spaces) (simp add: lower_def)
  ultimately show ?thesis
    by (simp add: normalized_search_term_def lower_append re_sub_spaces_run)
qed

lemma normalized_trailing:
  assumes "ws \<noteq> []" and "\<forall>c\<in>set ws. isspace c" and "rest = [] \<or> \<not> isspace (last rest)"
  shows "normalized_search_term (rest @ ws) = normalized_search_term rest @ '' ''"
proof -
  from assms(3) have "lower rest = [] \<or> \<not> isspace (last (lower rest))"
    by (cases "rest = []") (simp_all add: isspace_last_lower, simp add: lower_def)
  then have "re_sub_spaces (lower rest @ lower ws) =
             re_sub_spaces (lower rest) @ re_sub_spaces (lower ws)"
    by (rule re_sub_spaces_append)
  moreover from assms(1,2) have "lower ws \<noteq> []" "\<forall>c\<in>set (lower ws). isspace c"
    by (simp_all add: lower_spaces) (simp add: lower_def)
  then have "re_sub_spaces (lower ws @ []) = CHR '' '' # re_sub_spaces (dropWhile isspace [])"
    by (rule re_sub_spaces_run)
  ultimately show ?thesis
    by (simp add: normalized_search_term_def lower_append)
qed

lemma normalized_leading_space: "normalized_search_term '' star wars'' = '' star wars''"
  by code_simp

lemma normalized_trailing_space: "normalized_search_term ''star wars '' = ''star wars ''"
  by code_simp

text \<open>
  C10. The normalization strips nothing: a run of white space at the start of the search
  string becomes one space at the start of the key, and a run at the end becomes one space
  at the end, so the key differs from the key of the string without the run. " star wars"
  and "star wars " have the keys " star wars" and "star wars ", distinct from "star wars"
  and from each other. The recency check reads only the SearchTerm of the string's own
  key: with no SearchTerm of that key the client is called, whatever other terms
  are stored.
\<close>

theorem normalized_search_term_not_stripped:
  assumes "ws \<noteq> []" and "\<forall>c\<in>set ws. isspace c"
  shows "(rest = [] \<or> \<not> isspace (hd rest) \<longrightarrow>
            normalized_search_term (ws @ rest) = CHR '' '' # normalized_search_term rest \<and>
            normalized_search_term (ws @ rest) \<noteq> normalized_search_term rest) \<and>
         (rest = [] \<or> \<not> isspace (last rest) \<longrightarrow>
            normalized_search_term (rest @ ws) = normalized_search_term rest @ '' '' \<and>
            normalized_search_term (rest @ ws) \<noteq> normalized_search_term rest) \<and>
         normalized_search_term '' star wars'' = '' star wars'' \<and>
         normalized_search_term ''star wars '' = ''star wars '' \<and>
         normalized_search_term ''star wars'' = ''star wars'' \<and>
         (search_terms w (normalized_search_term s) = None \<and>
          \<not> fails (SearchTermGetOrCreate (normalized_search_term s)) \<longrightarrow>
            api_calls (snd (search_and_save omdb fails now s w)) = api_calls w @ [Search s])"
proof (intro conjI impI)
  assume "rest = [] \<or> \<not> isspace (hd rest)"
  with assms show l: "normalized_search_term (ws @ rest) = CHR '' '' # normalized_search_term rest"
    by (rule normalized_leading)
  show "normalized_search_term (ws @ rest) \<noteq> normalized_search_term rest"
    by (simp add: l)
next
  assume "rest = [] \<or> \<not> isspace (last rest)"
  with assms show t: "normalized_search_term (rest @ ws) = normalized_search_term rest @ '' ''"
    by (rule normalized_trailing)
  show "normalized_search_term (rest @ ws) \<noteq> normalized_search_term rest"
    by (simp add: t)
next
  show "normalized_search_term '' star wars'' = '' star wars''"
    by (rule normalized_leading_space)
  show "normalized_search_term ''star wars '' = ''star wars ''"
    by (rule normalized_trailing_space)
  show "normalized_search_term ''star wars'' = ''star wars''"
    by (rule normalized_star_wars)
next
  assume a: "search_terms w (normalized_search_term s) = None \<and>
    \<not> fails (SearchTermGetOrCreate (normalized_search_term s))"
  then have "\<not> searched_recently now (normalized_search_term s) w"
    by (simp add: searched_recently_def)
  with a show "api_calls (snd (search_and_save omdb fails now s w)) = api_calls w @ [Search s]"
    by (simp add: search_and_save_api_calls)
qed

theorem normalized_search_term_not_stripped_witness:
  "normalized_search_term ('' '' @ ''star wars'') = CHR '' '' # normalized_search_term ''star wars'' \<and>
   normalized_search_term (''star wars'' @ '' '') = normalized_search_term ''star wars'' @ '' '' \<and>
   search_terms (searched_at ''star wars'' example_now) ''star wars'' = Some example_now \<and>
   api_calls (snd (search_and_save no_results_client no_failure example_now '' star wars''
                     (searched_at ''star wars'' example_now))) = [Search '' star wars'']"
proof -
  have ws: "'' '' \<noteq> []" "\<forall>c\<in>set '' ''. isspace c"
    by (simp_all add: isspace_space)
  have rest: "''star wars'' = [] \<or> \<not> isspace (hd ''star wars'')"
    "''star wars'' = [] \<or> \<not> isspace (last ''star wars'')"
    by (simp_all add: isspace_def)
  have none: "search_terms (searched_at ''star wars'' example_now)
                (normalized_search_term '' star wars'') = None"
    by (simp add: normalized_leading_space searched_at_def empty_world_def)
  note t = normalized_search_term_not_stripped [where ws = "'' ''" and rest = "''star wars''"
      and w = "searched_at ''star wars'' example_now" and s = "'' star wars''"
      and fails = no_failure and omdb = no_results_client and now = example_now, OF ws]
  from t rest none show ?thesis
    by (simp add: no_failure_simp searched_at_simps)
qed

section \<open>\<open>fill_movie_details\<close>\<close>

lemma Genre_get_or_create_ok:
  "\<not> fails (GenreGetOrCreate g) \<Longrightarrow>
   Genre_get_or_create fails g w = (Inr (g, g \<notin> genres w), w\<lparr>genres := insert g (genres w)\<rparr>)"
  by (simp add: Genre_get_or_create_def)

lemma genres_add_ok:
  "\<not> fails (GenresAdd (imdb_id m) g) \<Longrightarrow>
   genres_add fails m g w =
     (None, w\<lparr>movie_genres := (movie_genres w)(imdb_id m := insert g (movie_genres w (imdb_id m)))\<rparr>)"
  by (simp add: genres_add_def)

lemma get_or_create_genres_add:
  assumes "\<forall>g\<in>set names. \<not> fails (GenreGetOrCreate g) \<and> \<not> fails (GenresAdd (imdb_id m) g)"
  shows "get_or_create_genres fails names (genres_add fails m) w =
         (None, w\<lparr>genres := genres w \<union> set names,
                  movie_genres := (movie_genres w)
                    (imdb_id m := movie_genres w (imdb_id m) \<union> set names)\<rparr>)"
  using assms
proof (induction names arbitrary: w)
  case Nil
  show ?case by simp
next
  case (Cons g names)
  let ?w2 = "w\<lparr>genres := insert g (genres w),
               movie_genres := (movie_genres w)(imdb_id m := insert g (movie_genres w (imdb_id m)))\<rparr>"
  from Cons.prems have g: "\<not> fails (GenreGetOrCreate g)" "\<not> fails (GenresAdd (imdb_id m) g)"
    and rest: "\<forall>g\<in>set names. \<not> fails (GenreGetOrCreate g) \<and> \<not> fails (GenresAdd (imdb_id m) g)"
    by simp_all
  have "get_or_create_genres fails (g # names) (genres_add fails m) w =
        get_or_create_genres fails names (genres_add fails m) ?w2"
    using g by (simp add: Genre_get_or_create_ok genres_add_ok)
  also have "\<dots> = (None, ?w2\<lparr>genres := genres ?w2 \<union> set names,
                  movie_genres := (movie_genres ?w2)
                    (imdb_id m := movie_genres ?w2 (imdb_id m) \<union> set names)\<rparr>)"
    using rest by (rule Cons.IH)
  also have "\<dots> = (None, w\<lparr>genres := genres w \<union> set (g # names),
                  movie_genres := (movie_genres w)
                    (imdb_id m := movie_genres w (imdb_id m) \<union> set (g # names))\<rparr>)"
    by simp
  finally show ?case .
qed

text \<open>
  C2. On a movie whose full-record flag is true, \<open>fill_movie_details\<close> logs a warning
  and returns: the result is no error, the movie object as it was, and the world with the
  warning added to the log and nothing else changed. No call is made to the client, and the
  stored movies, their genres, the Genres and the SearchTerms are those of before.
\<close>

theorem fill_movie_details_full_record:
  assumes "is_full_record movie"
  shows "fill_movie_details omdb fails movie w =
           (None, movie, logger_warning msg_already_full [title movie] w) \<and>
         api_calls (snd (snd (fill_movie_details omdb fails movie w))) = api_calls w \<and>
         movies (snd (snd (fill_movie_details omdb fails movie w))) = movies w \<and>
         movie_genres (snd (snd (fill_movie_details omdb fails movie w))) = movie_genres w \<and>
         genres (snd (snd (fill_movie_details omdb fails movie w))) = genres w \<and>
         search_terms (snd (snd (fill_movie_details omdb fails movie w))) = search_terms w"
  using assms by (simp add: fill_movie_details_def logger_warning_def)

theorem fill_movie_details_full_record_witness:
  "is_full_record star_wars \<and>
   fill_movie_details details_client no_failure star_wars star_wars_stored =
     (None, star_wars, logger_warning msg_already_full [''Star Wars''] star_wars_stored) \<and>
   api_calls (snd (snd (fill_movie_details details_client no_failure star_wars
                          star_wars_stored))) = []"
proof -
  have full: "is_full_record star_wars"
    by (simp add: star_wars_def)
  have t: "title star_wars = ''Star Wars''"
    by (simp add: star_wars_def)
  have a: "api_calls star_wars_stored = []"
    by (simp add: star_wars_stored_def empty_world_def)
  note r = fill_movie_details_full_record [OF full, of details_client no_failure star_wars_stored]
  have 1: "fill_movie_details details_client no_failure star_wars star_wars_stored =
     (None, star_wars, logger_warning msg_already_full [''Star Wars''] star_wars_stored)"
    using r [THEN conjunct1] by (simp only: t)
  have 2: "api_calls (snd (snd (fill_movie_details details_client no_failure star_wars
                          star_wars_stored))) = []"
    using r [THEN conjunct2, THEN conjunct1] by (simp only: a)
  from full 1 2 show ?thesis by (intro conjI)
qed

lemma fill_movie_details_ok:
  assumes partial: "\<not> is_full_record movie"
    and details: "get_by_imdb_id omdb (imdb_id movie) = Inr d"
    and clear_ok: "\<not> fails (GenresClear (imdb_id movie))"
    and genres_ok: "\<forall>g\<in>set (md_genres d).
        \<not> fails (GenreGetOrCreate g) \<and> \<not> fails (GenresAdd (imdb_id movie) g)"
    and save_ok: "\<not> fails (MovieSave
        (movie\<lparr>title := md_title d, year := md_year d, plot := Some (md_plot d),
               runtime_minutes := Some (md_runtime_minutes d), is_full_record := True\<rparr>))"
  shows "fill_movie_details omdb fails movie w =
     (None,
      movie\<lparr>title := md_title d, year := md_year d, plot := Some (md_plot d),
            runtime_minutes := Some (md_runtime_minutes d), is_full_record := True\<rparr>,
      w\<lparr>api_calls := api_calls w @ [GetByImdbId (imdb_id movie)],
        genres := genres w \<union> set (md_genres d),
        movie_genres := (movie_genres w)(imdb_id movie := set (md_genres d)),
        movies := (movies w)(imdb_id movie \<mapsto>
          movie\<lparr>title := md_title d, year := md_year d, plot := Some (md_plot d),
                runtime_minutes := Some (md_runtime_minutes d), is_full_record := True\<rparr>)\<rparr>)"
proof -
  let ?m1 = "movie\<lparr>title := md_title d, year := md_year d, plot := Some (md_plot d),
                   runtime_minutes := Some (md_runtime_minutes d)\<rparr>"
  let ?w2 = "w\<lparr>api_calls := api_calls w @ [GetByImdbId (imdb_id movie)],
               movie_genres := (movie_genres w)(imdb_id movie := {})\<rparr>"
  have id1: "imdb_id ?m1 = imdb_id movie" by simp
  have clear: "genres_clear fails ?m1 (w\<lparr>api_calls := api_calls w @ [GetByImdbId (imdb_id movie)]\<rparr>)
               = (None, ?w2)"
    using clear_ok by (simp add: genres_clear_def)
  have loop: "get_or_create_genres fails (md_genres d) (genres_add fails ?m1) ?w2 =
      (None, ?w2\<lparr>genres := genres ?w2 \<union> set (md_genres d),
                   movie_genres := (movie_genres ?w2)
                     (imdb_id ?m1 := movie_genres ?w2 (imdb_id ?m1) \<union> set (md_genres d))\<rparr>)"
    using genres_ok by (intro get_or_create_genres_add) (simp only: id1)
  show ?thesis
    using partial save_ok
    by (simp add: fill_movie_details_def details Let_def clear loop Movie_save_def)
qed

text \<open>
  C4. On a movie whose full-record flag is false, when the client returns the details of
  the movie's external ID and the store accepts every operation of the call,
  \<open>fill_movie_details\<close> ends without error. One call was made to the client, with the
  external ID. The movie object has the title, year, plot and run time of the details and
  the flag true, and its row in the store is that object. The genres of the movie are
  exactly those of the details, whatever they were. The Genres are those of before and
  those of the details: one was created for each name of the details that did not exist.
  Nothing else changed.
\<close>

theorem fill_movie_details_partial_record:
  assumes partial: "\<not> is_full_record movie"
    and details: "get_by_imdb_id omdb (imdb_id movie) = Inr d"
    and clear_ok: "\<not> fails (GenresClear (imdb_id movie))"
    and genres_ok: "\<forall>g\<in>set (md_genres d).
        \<not> fails (GenreGetOrCreate g) \<and> \<not> fails (GenresAdd (imdb_id movie) g)"
    and save_ok: "\<not> fails (MovieSave
        (movie\<lparr>title := md_title d, year := md_year d, plot := Some (md_plot d),
               runtime_minutes := Some (md_runtime_minutes d), is_full_record := True\<rparr>))"
  shows "fill_movie_details omdb fails movie w =
     (None,
      movie\<lparr>title := md_title d, year := md_year d, plot := Some (md_plot d),
            runtime_minutes := Some (md_runtime_minutes d), is_full_record := True\<rparr>,
      w\<lparr>api_calls := api_calls w @ [GetByImdbId (imdb_id movie)],
        genres := genres w \<union> set (md_genres d),
        movie_genres := (movie_genres w)(imdb_id movie := set (md_genres d)),
        movies := (movies w)(imdb_id movie \<mapsto>
          movie\<lparr>title := md_title d, year := md_year d, plot := Some (md_plot d),
                runtime_minutes := Some (md_runtime_minutes d), is_full_record := True\<rparr>)\<rparr>)"
  using assms by (rule fill_movie_details_ok)

theorem fill_movie_details_partial_record_witness:
  "\<not> is_full_record star_wars_partial \<and>
   genres partial_stored = {''Action'', ''Adventure''} \<and>
   movie_genres partial_stored ''tt0076759'' = {''Adventure''} \<and>
   fst (fill_movie_details details_client no_failure star_wars_partial partial_stored) = None \<and>
   fst (snd (fill_movie_details details_client no_failure star_wars_partial partial_stored)) =
     star_wars \<and>
   movies (snd (snd (fill_movie_details details_client no_failure star_wars_partial
                       partial_stored))) ''tt0076759'' = Some star_wars \<and>
   movie_genres (snd (snd (fill_movie_details details_client no_failure star_wars_partial
                       partial_stored))) ''tt0076759'' = {''Action'', ''Drama''} \<and>
   genres (snd (snd (fill_movie_details details_client no_failure star_wars_partial
                       partial_stored))) = {''Action'', ''Adventure'', ''Drama''} \<and>
   api_calls (snd (snd (fill_movie_details details_client no_failure star_wars_partial
                       partial_stored))) = [GetByImdbId ''tt0076759'']"
proof -
  let ?r = "fill_movie_details details_client no_failure star_wars_partial partial_stored"
  have id: "imdb_id star_wars_partial = ''tt0076759''"
    by (simp add: star_wars_partial_def partial_record_def result_a_def)
  have partial: "\<not> is_full_record star_wars_partial"
    by (simp add: star_wars_partial_def partial_record_def)
  have details: "get_by_imdb_id details_client (imdb_id star_wars_partial) = Inr star_wars_details"
    by (simp add: id details_client_def)
  have clear_ok: "\<not> no_failure (GenresClear (imdb_id star_wars_partial))"
    by (rule no_failure_simp)
  have genres_ok: "\<forall>g\<in>set (md_genres star_wars_details).
        \<not> no_failure (GenreGetOrCreate g) \<and> \<not> no_failure (GenresAdd (imdb_id star_wars_partial) g)"
    by (simp add: no_failure_simp)
  have filled: "star_wars_partial\<lparr>title := md_title star_wars_details,
        year := md_year star_wars_details, plot := Some (md_plot star_wars_details),
        runtime_minutes := Some (md_runtime_minutes star_wars_details),
        is_full_record := True\<rparr> = star_wars"
    by (simp add: star_wars_partial_def partial_record_def result_a_def star_wars_details_def
          star_wars_def)
  have save_ok: "\<not> no_failure (MovieSave
        (star_wars_partial\<lparr>title := md_title star_wars_details,
        year := md_year star_wars_details, plot := Some (md_plot star_wars_details),
        runtime_minutes := Some (md_runtime_minutes star_wars_details),
        is_full_record := True\<rparr>))"
    by (rule no_failure_simp)
  note r = fill_movie_details_partial_record [where fails = no_failure and omdb = details_client
      and w = partial_stored, OF partial details clear_ok genres_ok save_ok]
  have g0: "genres partial_stored = {''Action'', ''Adventure''}"
    and mg0: "movie_genres partial_stored ''tt0076759'' = {''Adventure''}"
    and a0: "api_calls partial_stored = []"
    by (simp_all add: partial_stored_def empty_world_def)
  have names: "set (md_genres star_wars_details) = {''Action'', ''Drama''}"
    by (simp add: star_wars_details_def)
  have 1: "fst ?r = None" by (simp add: r)
  have 2: "fst (snd ?r) = star_wars" by (simp add: r filled)
  have 3: "movies (snd (snd ?r)) ''tt0076759'' = Some star_wars" by (simp add: r filled id)
  have 4: "movie_genres (snd (snd ?r)) ''tt0076759'' = {''Action'', ''Drama''}"
    by (simp add: r id names)
  have 5: "genres (snd (snd ?r)) = {''Action'', ''Adventure'', ''Drama''}"
    by (simp add: r g0 names) auto
  have 6: "api_calls (snd (snd ?r)) = [GetByImdbId ''tt0076759'']"
    by (simp add: r a0 id)
  from partial g0 mg0 1 2 3 4 5 6 show ?thesis by (intro conjI)
qed

section \<open>The full-record flag\<close>

lemma get_or_create_genres_movies:
  assumes "\<And>g w. movies (snd (body g w)) = movies w"
  shows "movies (snd (get_or_create_genres fails names body w)) = movies w"
proof (induction names arbitrary: w)
  case Nil
  show ?case by simp
next
  case (Cons g names)
  show ?case
  proof (cases "fails (GenreGetOrCreate g)")
    case True
    then show ?thesis by (simp add: Genre_get_or_create_def)
  next
    case False
    let ?w1 = "w\<lparr>genres := insert g (genres w)\<rparr>"
    have b: "movies (snd (body g ?w1)) = movies w"
      by (simp add: assms)
    show ?thesis
    proof (cases "fst (body g ?w1)")
      case None
      with False have "get_or_create_genres fails (g # names) body w =
          get_or_create_genres fails names body (snd (body g ?w1))"
        by (simp add: Genre_get_or_create_def case_prod_unfold)
      with b show ?thesis by (simp add: Cons.IH)
    next
      case (Some e)
      with False have "get_or_create_genres fails (g # names) body w = (Some e, snd (body g ?w1))"
        by (simp add: Genre_get_or_create_def case_prod_unfold)
      with b show ?thesis by simp
    qed
  qed
qed

lemma genres_add_movies: "movies (snd (genres_add fails m g w)) = movies w"
  by (simp add: genres_add_def)

lemma fill_movie_details_movies:
  "movies (snd (snd (fill_movie_details omdb fails movie w))) = movies w \<or>
   (\<not> is_full_record movie \<and>
    (\<exists>m'. is_full_record m' \<and>
       movies (snd (snd (fill_movie_details omdb fails movie w))) =
         (movies w)(imdb_id movie \<mapsto> m')))"
proof (cases "is_full_record movie")
  case True
  then show ?thesis by (simp add: fill_movie_details_def logger_warning_def)
next
  case partial: False
  let ?w1 = "w\<lparr>api_calls := api_calls w @ [GetByImdbId (imdb_id movie)]\<rparr>"
  show ?thesis
  proof (cases "get_by_imdb_id omdb (imdb_id movie)")
    case (Inl e)
    with partial show ?thesis by (simp add: fill_movie_details_def)
  next
    case (Inr d)
    let ?m1 = "movie\<lparr>title := md_title d, year := md_year d, plot := Some (md_plot d),
                     runtime_minutes := Some (md_runtime_minutes d)\<rparr>"
    show ?thesis
    proof (cases "fails (GenresClear (imdb_id movie))")
      case True
      with partial Inr show ?thesis by (simp add: fill_movie_details_def genres_clear_def)
    next
      case False
      let ?w2 = "?w1\<lparr>movie_genres := (movie_genres ?w1)(imdb_id movie := {})\<rparr>"
      let ?loop = "get_or_create_genres fails (md_genres d) (genres_add fails ?m1) ?w2"
      have clear: "genres_clear fails ?m1 ?w1 = (None, ?w2)"
        using False by (simp add: genres_clear_def)
      have lm: "movies (snd ?loop) = movies w"
        by (simp add: get_or_create_genres_movies genres_add_movies)
      show ?thesis
      proof (cases "fst ?loop")
        case (Some e)
        with partial Inr clear lm show ?thesis
          by (simp add: fill_movie_details_def Let_def case_prod_unfold)
      next
        case None
        show ?thesis
        proof (cases "fails (MovieSave (?m1\<lparr>is_full_record := True\<rparr>))")
          case True
          with partial Inr clear lm None show ?thesis
            by (simp add: fill_movie_details_def Let_def Movie_save_def case_prod_unfold)
        next
          case False
          with partial Inr clear lm None
          have "movies (snd (snd (fill_movie_details omdb fails movie w))) =
                (movies w)(imdb_id movie \<mapsto> ?m1\<lparr>is_full_record := True\<rparr>)"
            by (simp add: fill_movie_details_def Let_def Movie_save_def case_prod_unfold)
          moreover have "is_full_record (?m1\<lparr>is_full_record := True\<rparr>)" by simp
          ultimately have "\<exists>m'. is_full_record m' \<and>
              movies (snd (snd (fill_movie_details omdb fails movie w))) =
                (movies w)(imdb_id movie \<mapsto> m')"
            by blast
          with partial show ?thesis by (intro disjI2 conjI)
        qed
      qed
    qed
  qed
qed

lemma fill_movie_details_stored_full:
  assumes "stored_full_record w i"
  shows "stored_full_record (snd (snd (fill_movie_details omdb fails movie w))) i"
  using fill_movie_details_movies [of omdb fails movie w] assms
  by (auto simp: stored_full_record_def split: option.splits if_splits)

lemma save_results_stored_full:
  "stored_full_record (snd (save_results fails rs w)) i = stored_full_record w i"
proof (induction rs arbitrary: w)
  case Nil
  show ?case by simp
next
  case (Cons r rs)
  show ?case
  proof (cases "get_or_create_fails fails r")
    case True
    then show ?thesis
      by (simp add: save_results_Cons logger_info_def stored_full_record_def)
  next
    case False
    show ?thesis
    proof (cases "movies w (om_imdb_id r)")
      case None
      with False show ?thesis
        by (simp add: save_results_Cons Cons.IH)
           (simp add: logger_info_def stored_full_record_def)
    next
      case (Some m)
      with False show ?thesis
        by (simp add: save_results_Cons Cons.IH)
           (simp add: logger_info_def stored_full_record_def)
    qed
  qed
qed

lemma search_and_save_stored_full:
  "stored_full_record (snd (search_and_save omdb fails now s w)) i = stored_full_record w i"
proof (cases "fails (SearchTermGetOrCreate (normalized_search_term s))")
  case True
  then show ?thesis by (simp add: search_and_save_fails)
next
  case nf: False
  show ?thesis
  proof (cases "searched_recently now (normalized_search_term s) w")
    case True
    with nf show ?thesis
      by (simp add: search_and_save_recent logger_warning_def stored_full_record_def)
  next
    case False
    with nf have "movies (snd (search_and_save omdb fails now s w)) =
                  movies (snd (save_results fails (fst (search omdb s)) w))"
      by (rule search_and_save_movies)
    then have "stored_full_record (snd (search_and_save omdb fails now s w)) i =
               stored_full_record (snd (save_results fails (fst (search omdb s)) w)) i"
      by (simp add: stored_full_record_def)
    then show ?thesis by (simp add: save_results_stored_full)
  qed
qed

lemma run_operation_stored_full:
  "stored_full_record w i \<Longrightarrow> stored_full_record (run_operation op w) i"
  by (cases op) (simp_all add: fill_movie_details_stored_full search_and_save_stored_full)

lemma run_operations_stored_full:
  "stored_full_record w i \<Longrightarrow> stored_full_record (run_operations ops w) i"
  by (induction ops arbitrary: w) (simp_all add: run_operation_stored_full)

lemma run_operations_append:
  "run_operations (ops1 @ ops2) w = run_operations ops2 (run_operations ops1 w)"
  by (induction ops1 arbitrary: w) simp_all

lemma star_wars_filled:
  "movies (snd (snd (fill_movie_details details_client no_failure star_wars_partial
                       partial_stored))) ''tt0076759'' = Some star_wars"
proof -
  have id: "imdb_id star_wars_partial = ''tt0076759''"
    by (simp add: star_wars_partial_def partial_record_def result_a_def)
  have partial: "\<not> is_full_record star_wars_partial"
    by (simp add: star_wars_partial_def partial_record_def)
  have details: "get_by_imdb_id details_client (imdb_id star_wars_partial) = Inr star_wars_details"
    by (simp add: id details_client_def)
  have clear_ok: "\<not> no_failure (GenresClear (imdb_id star_wars_partial))"
    by (rule no_failure_simp)
  have genres_ok: "\<forall>g\<in>set (md_genres star_wars_details).
        \<not> no_failure (GenreGetOrCreate g) \<and> \<not> no_failure (GenresAdd (imdb_id star_wars_partial) g)"
    by (simp add: no_failure_simp)
  have filled: "star_wars_partial\<lparr>title := md_title star_wars_details,
        year := md_year star_wars_details, plot := Some (md_plot star_wars_details),
        runtime_minutes := Some (md_runtime_minutes star_wars_details),
        is_full_record := True\<rparr> = star_wars"
    by (simp add: star_wars_partial_def partial_record_def result_a_def star_wars_details_def
          star_wars_def)
  have save_ok: "\<not> no_failure (MovieSave
        (star_wars_partial\<lparr>title := md_title star_wars_details,
        year := md_year star_wars_details, plot := Some (md_plot star_wars_details),
        runtime_minutes := Some (md_runtime_minutes star_wars_details),
        is_full_record := True\<rparr>))"
    by (rule no_failure_simp)
  note r = fill_movie_details_ok [where fails = no_failure and omdb = details_client
      and w = partial_stored, OF partial details clear_ok genres_ok save_ok]
  show ?thesis by (simp add: r filled id)
qed

text \<open>
  C8. In the store, the full-record flag of a movie never goes from true to false:
  when it is true after some calls of \<open>fill_movie_details\<close> and \<open>search_and_save\<close>,
  it is true after any further calls, so along a sequence of calls it goes from false to
  true at most once. \<open>search_and_save\<close> leaves the flag of every external ID as it
  was: a stored movie keeps its row, and a movie it creates has the flag false.
  \<open>fill_movie_details\<close> changes no row when the flag of its movie object is true; the
  only row it can change is the one of the external ID of its movie object, when the flag
  of the object is false, and the row it writes has the flag true. The object it returns
  has the flag true when the object it was given had.
\<close>

theorem full_record_flag_never_reverts:
  "(stored_full_record (run_operations earlier w) i \<longrightarrow>
      stored_full_record (run_operations (earlier @ later) w) i) \<and>
   stored_full_record (snd (search_and_save omdb fails now s w)) i = stored_full_record w i \<and>
   (movies w i = Some m \<longrightarrow> movies (snd (search_and_save omdb fails now s w)) i = Some m) \<and>
   (is_full_record movie \<longrightarrow>
      movies (snd (snd (fill_movie_details omdb fails movie w))) = movies w \<and>
      is_full_record (fst (snd (fill_movie_details omdb fails movie w)))) \<and>
   (movies (snd (snd (fill_movie_details omdb fails movie w))) i \<noteq> movies w i \<longrightarrow>
      i = imdb_id movie \<and> \<not> is_full_record movie \<and>
      stored_full_record (snd (snd (fill_movie_details omdb fails movie w))) i)"
proof (intro conjI impI)
  assume "stored_full_record (run_operations earlier w) i"
  then show "stored_full_record (run_operations (earlier @ later) w) i"
    by (simp add: run_operations_append run_operations_stored_full)
next
  show "stored_full_record (snd (search_and_save omdb fails now s w)) i = stored_full_record w i"
    by (rule search_and_save_stored_full)
next
  assume "movies w i = Some m"
  then show "movies (snd (search_and_save omdb fails now s w)) i = Some m"
    by (rule search_and_save_stored)
next
  assume full: "is_full_record movie"
  then show "movies (snd (snd (fill_movie_details omdb fails movie w))) = movies w"
    by (simp add: fill_movie_details_def logger_warning_def)
  from full show "is_full_record (fst (snd (fill_movie_details omdb fails movie w)))"
    by (simp add: fill_movie_details_def)
next
  assume changed: "movies (snd (snd (fill_movie_details omdb fails movie w))) i \<noteq> movies w i"
  with fill_movie_details_movies [of omdb fails movie w]
  obtain m' where partial: "\<not> is_full_record movie" and full: "is_full_record m'"
    and row: "movies (snd (snd (fill_movie_details omdb fails movie w))) =
              (movies w)(imdb_id movie \<mapsto> m')"
    by auto
  from changed row show i: "i = imdb_id movie"
    by (auto split: if_splits)
  from partial show "\<not> is_full_record movie" .
  from row full i show "stored_full_record (snd (snd (fill_movie_details omdb fails movie w))) i"
    by (simp add: stored_full_record_def)
qed

theorem full_record_flag_never_reverts_witness:
  "\<not> stored_full_record partial_stored ''tt0076759'' \<and>
   stored_full_record
     (run_operations [FillMovieDetails details_client no_failure star_wars_partial]
        partial_stored) ''tt0076759'' \<and>
   stored_full_record
     (run_operations
        ([FillMovieDetails details_client no_failure star_wars_partial] @
         [SearchAndSave two_results_client no_failure example_now ''star wars'',
          FillMovieDetails details_client (refuses ''tt0076759'') star_wars_partial])
        partial_stored) ''tt0076759''"
proof -
  have 0: "\<not> stored_full_record partial_stored ''tt0076759''"
    by (simp add: stored_full_record_def partial_stored_def star_wars_partial_def
          partial_record_def)
  have 1: "stored_full_record
     (run_operations [FillMovieDetails details_client no_failure star_wars_partial]
        partial_stored) ''tt0076759''"
    by (simp add: stored_full_record_def star_wars_filled) (simp add: star_wars_def)
  from full_record_flag_never_reverts [where
      earlier = "[FillMovieDetails details_client no_failure star_wars_partial]"
      and w = partial_stored and i = "''tt0076759''"
      and later = "[SearchAndSave two_results_client no_failure example_now ''star wars'',
          FillMovieDetails details_client (refuses ''tt0076759'') star_wars_partial]",
      THEN conjunct1] 1
  have 2: "stored_full_record
     (run_operations
        ([FillMovieDetails details_client no_failure star_wars_partial] @
         [SearchAndSave two_results_client no_failure example_now ''star wars'',
          FillMovieDetails details_client (refuses ''tt0076759'') star_wars_partial])
        partial_stored) ''tt0076759''"
    by (rule mp)
  from 0 1 2 show ?thesis by (intro conjI)
qed

end
